theory Spec2Isabelle
  imports Complex_Main "HOL-Library.Sublist"
begin

section \<open>Enumerated vocabulary (src/NativeCmSdkReactNativeV3.ts)\<close>

text \<open>
  A JavaScript \<open>number\<close> is modelled as a real. The TypeScript layer never computes with
  numbers: it compares them, replaces an absent one by a default and passes them on, so
  rounding plays no part. \<open>NaN\<close> and the infinities are not represented.
  An optional property (\<open>field?: T\<close>) is an \<open>option\<close>: \<open>None\<close> is \<open>undefined\<close>.
\<close>

type_synonym number = real

text \<open>The string enums, each with the string its member stands for at run time.\<close>

datatype WebViewPosition = FullScreen | HalfScreenTop | HalfScreenBottom | Custom

fun WebViewPosition_value :: "WebViewPosition \<Rightarrow> string" where
  "WebViewPosition_value FullScreen = ''fullScreen''"
| "WebViewPosition_value HalfScreenTop = ''halfScreenTop''"
| "WebViewPosition_value HalfScreenBottom = ''halfScreenBottom''"
| "WebViewPosition_value Custom = ''custom''"

datatype BackgroundStyleType = Dimmed | Color | Blur | NoneStyle

fun BackgroundStyleType_value :: "BackgroundStyleType \<Rightarrow> string" where
  "BackgroundStyleType_value Dimmed = ''dimmed''"
| "BackgroundStyleType_value Color = ''color''"
| "BackgroundStyleType_value Blur = ''blur''"
| "BackgroundStyleType_value NoneStyle = ''none''"

datatype BlurEffectStyle = Light | Dark | ExtraLight

fun BlurEffectStyle_value :: "BlurEffectStyle \<Rightarrow> string" where
  "BlurEffectStyle_value Light = ''light''"
| "BlurEffectStyle_value Dark = ''dark''"
| "BlurEffectStyle_value ExtraLight = ''extraLight''"

text \<open>The numeric enum \<open>ATTStatus\<close>.\<close>

datatype ATTStatus = NotDetermined | Restricted | Denied | Authorized

fun ATTStatus_value :: "ATTStatus \<Rightarrow> number" where
  "ATTStatus_value NotDetermined = 0"
| "ATTStatus_value Restricted = 1"
| "ATTStatus_value Denied = 2"
| "ATTStatus_value Authorized = 3"

section \<open>Configuration objects\<close>

text \<open>The nullish coalescing operator: \<open>a ?? d\<close> is \<open>coalesce a d\<close>.\<close>

fun coalesce :: "'a option \<Rightarrow> 'a \<Rightarrow> 'a" where
  "coalesce None d = d"
| "coalesce (Some v) d = v"

text \<open>A colour is \<open>string | number\<close>.\<close>

datatype ColorValue = ColorString string | ColorNumber number

text \<open>\<open>WebViewRect = {x, y, width, height}\<close>; the fields carry the prefix \<open>rect_\<close>.\<close>

record WebViewRect =
  rect_x :: number
  rect_y :: number
  rect_width :: number
  rect_height :: number

text \<open>
  \<open>WebViewBackgroundStyle\<close> is a union of object shapes told apart by the string \<open>type\<close>.
  At run time it is one object on which any of the payload properties may be missing, and
  whose tag may be any string (the normalizer has a \<open>default:\<close> branch for that), so it is
  one record with a string tag and optional payload.
\<close>

record WebViewBackgroundStyle =
  type :: string
  color :: "ColorValue option"
  opacity :: "number option"
  blurEffectStyle :: "string option"

record WebViewConfig =
  position :: "string option"
  customRect :: "WebViewRect option"
  cornerRadius :: "number option"
  respectsSafeArea :: "bool option"
  allowsOrientationChanges :: "bool option"
  backgroundStyle :: "WebViewBackgroundStyle option"

section \<open>Background style factory\<close>

text \<open>
  \<open>BackgroundStyle.dimmed\<close>, \<open>.color\<close>, \<open>.blur\<close> and \<open>.none\<close>. A parameter is an \<open>option\<close>:
  \<open>None\<close> is an argument left out (or \<open>undefined\<close>). Each is a single object literal; the
  result is the object itself, there is no error result because no factory has a
  \<open>throw\<close>. Only \<open>blur\<close> has a default parameter value.
\<close>

definition BackgroundStyle_dimmed ::
  "ColorValue option \<Rightarrow> number option \<Rightarrow> WebViewBackgroundStyle" where
  "BackgroundStyle_dimmed c opac =
     \<lparr>type = ''dimmed'', color = c, opacity = opac, blurEffectStyle = None\<rparr>"

definition BackgroundStyle_color :: "ColorValue option \<Rightarrow> WebViewBackgroundStyle" where
  "BackgroundStyle_color c =
     \<lparr>type = ''color'', color = c, opacity = None, blurEffectStyle = None\<rparr>"

definition BackgroundStyle_blur :: "string option \<Rightarrow> WebViewBackgroundStyle" where
  "BackgroundStyle_blur style =
     \<lparr>type = ''blur'', color = None, opacity = None,
      blurEffectStyle =
        Some (coalesce style (BlurEffectStyle_value Dark))\<rparr>"

definition BackgroundStyle_none :: WebViewBackgroundStyle where
  "BackgroundStyle_none =
     \<lparr>type = ''none'', color = None, opacity = None, blurEffectStyle = None\<rparr>"

section \<open>WebView config normalizer (normalizeWebViewConfig, normalizeColor)\<close>

text \<open>
  Every \<open>throw new Error(...)\<close> of the TypeScript layer is one constructor, carrying the
  value the message interpolates:
  \<^item> \<open>InvalidWebViewPosition p\<close>: "Invalid WebView position: p";
  \<^item> \<open>CustomRectRequired\<close>: "customRect is required when position is custom";
  \<^item> \<open>ColorRequired\<close>: "color is required for backgroundStyle color";
  \<^item> \<open>InvalidBlurEffectStyle s\<close>: "Invalid blurEffectStyle: s";
  \<^item> \<open>InvalidBackgroundStyleType t\<close>: "Invalid backgroundStyle type: t";
  \<^item> \<open>InvalidColorValue c\<close>: "Invalid color value: c";
  \<^item> \<open>InvalidATTStatus n\<close>: "Invalid ATT status n. Use ATTStatus enum ...".
\<close>

datatype error =
    InvalidWebViewPosition string
  | CustomRectRequired
  | ColorRequired
  | InvalidBlurEffectStyle string
  | InvalidBackgroundStyleType string
  | InvalidColorValue ColorValue
  | InvalidATTStatus number

text \<open>
  \<open>processColor\<close> belongs to react-native, so it is a parameter: \<open>None\<close> is its
  \<open>null\<close>/\<open>undefined\<close> result, \<open>Some n\<close> the processed colour.
\<close>

type_synonym processColor = "ColorValue \<Rightarrow> number option"

definition normalizeColor :: "processColor \<Rightarrow> ColorValue option \<Rightarrow> error + number option" where
  "normalizeColor pc c =
     (case c of
        None \<Rightarrow> Inr None
      | Some v \<Rightarrow>
          (case pc v of
             None \<Rightarrow> Inl (InvalidColorValue v)
           | Some processed \<Rightarrow> Inr (Some processed)))"

text \<open>
  JavaScript truthiness of an optional colour, as \<open>!config.backgroundStyle.color\<close> reads
  it: \<open>undefined\<close>, the empty string and the number 0 are falsy.
\<close>

fun truthy_color :: "ColorValue option \<Rightarrow> bool" where
  "truthy_color None = False"
| "truthy_color (Some (ColorString s)) = (s \<noteq> [])"
| "truthy_color (Some (ColorNumber n)) = (n \<noteq> 0)"

definition allowedPositions :: "string list" where
  "allowedPositions =
     [WebViewPosition_value FullScreen, WebViewPosition_value HalfScreenTop,
      WebViewPosition_value HalfScreenBottom, WebViewPosition_value Custom]"

text \<open>The three \<open>console.warn\<close> messages.\<close>

definition warn_customRect :: string where
  "warn_customRect =
     ''[cm-sdk-react-native-v3] Android SDK ignores customRect; falling back to full screen.''"

definition warn_blur :: string where
  "warn_blur = ''[cm-sdk-react-native-v3] Android SDK ignores blur; using dimmed.''"

definition warn_backgroundStyle :: string where
  "warn_backgroundStyle =
     ''[cm-sdk-react-native-v3] Android SDK ignores backgroundStyle; using dimmed.''"

text \<open>The colour property of a result object holds what \<open>normalizeColor\<close> returned, a number.\<close>

definition processedColor :: "number option \<Rightarrow> ColorValue option" where
  "processedColor p = map_option ColorNumber p"

text \<open>
  The immediately invoked function that computes \<open>const backgroundStyle\<close>. The first
  argument is \<open>Platform.OS\<close>. The result is the warnings written to the console and
  either the thrown error or the new style object.
\<close>

definition normalizeBackgroundStyle ::
  "string \<Rightarrow> processColor \<Rightarrow> WebViewBackgroundStyle option
     \<Rightarrow> string list \<times> (error + WebViewBackgroundStyle)" where
  "normalizeBackgroundStyle os pc bs =
     (case bs of
        None \<Rightarrow>
          (case normalizeColor pc (Some (ColorString ''black'')) of
             Inl e \<Rightarrow> ([], Inl e)
           | Inr c \<Rightarrow>
               ([], Inr \<lparr>type = BackgroundStyleType_value Dimmed, color = processedColor c,
                         opacity = Some 0.5, blurEffectStyle = None\<rparr>))
      | Some b \<Rightarrow>
          if type b = BackgroundStyleType_value Dimmed then
            (case normalizeColor pc
                    (Some (coalesce (color b) (ColorString ''black''))) of
               Inl e \<Rightarrow> ([], Inl e)
             | Inr c \<Rightarrow>
                 ([], Inr \<lparr>type = type b, color = processedColor c,
                           opacity = Some (coalesce (opacity b) 0.5),
                           blurEffectStyle = None\<rparr>))
          else if type b = BackgroundStyleType_value Color then
            (if \<not> truthy_color (color b) then ([], Inl ColorRequired)
             else
               (case normalizeColor pc (color b) of
                  Inl e \<Rightarrow> ([], Inl e)
                | Inr c \<Rightarrow>
                    ([], Inr \<lparr>type = type b, color = processedColor c, opacity = None,
                              blurEffectStyle = None\<rparr>)))
          else if type b = BackgroundStyleType_value Blur then
            (let blurStyle = coalesce (blurEffectStyle b) (BlurEffectStyle_value Dark)
             in
               if blurStyle \<noteq> BlurEffectStyle_value Dark \<and>
                  blurStyle \<noteq> BlurEffectStyle_value Light \<and>
                  blurStyle \<noteq> BlurEffectStyle_value ExtraLight
               then ([], Inl (InvalidBlurEffectStyle blurStyle))
               else
                 (if os = ''android'' then [warn_blur] else [],
                  Inr \<lparr>type = type b, color = None, opacity = None,
                       blurEffectStyle = Some blurStyle\<rparr>))
          else if type b = BackgroundStyleType_value NoneStyle then
            ([], Inr \<lparr>type = type b, color = None, opacity = None, blurEffectStyle = None\<rparr>)
          else ([], Inl (InvalidBackgroundStyleType (type b))))"

text \<open>
  \<open>normalizeWebViewConfig\<close>: the position check, the custom rectangle check (with its
  Android warning), the background style, the Android warning for a given background
  style, and the result object.
\<close>

definition normalizeWebViewConfig ::
  "string \<Rightarrow> processColor \<Rightarrow> WebViewConfig \<Rightarrow> string list \<times> (error + WebViewConfig)" where
  "normalizeWebViewConfig os pc config =
     (let pos = coalesce (position config) (WebViewPosition_value FullScreen)
      in
        if pos \<notin> set allowedPositions then ([], Inl (InvalidWebViewPosition pos))
        else if pos = WebViewPosition_value Custom \<and> customRect config = None
        then ([], Inl CustomRectRequired)
        else
          (let w1 = (if pos = WebViewPosition_value Custom \<and> os = ''android''
                     then [warn_customRect] else [])
           in
             case normalizeBackgroundStyle os pc (backgroundStyle config) of
               (w2, Inl e) \<Rightarrow> (w1 @ w2, Inl e)
             | (w2, Inr bg) \<Rightarrow>
                 (w1 @ w2 @
                    (if os = ''android'' \<and> backgroundStyle config \<noteq> None
                     then [warn_backgroundStyle] else []),
                  Inr \<lparr>position = Some pos,
                       customRect = customRect config,
                       cornerRadius = Some (coalesce (cornerRadius config) 5),
                       respectsSafeArea = Some (coalesce (respectsSafeArea config) True),
                       allowsOrientationChanges =
                         Some (coalesce (allowsOrientationChanges config) True),
                       backgroundStyle = Some bg\<rparr>)))"

text \<open>
  The \<open>processColor\<close> of the repository's jest mock of react-native
  (\<open>__mocks__/react-native.ts\<close>): \<open>null\<close> for \<open>'invalid-color-xyz'\<close>, a number unchanged,
  \<open>0xff000000\<close> for every other string.
\<close>

definition mock_processColor :: processColor where
  "mock_processColor c =
     (if c = ColorString ''invalid-color-xyz'' then None
      else (case c of ColorNumber n \<Rightarrow> Some n | ColorString s \<Rightarrow> Some 4278190080))"

section \<open>Bridge call surface (TypeScript wrappers)\<close>

text \<open>
  A call that crosses the bridge: a method of the TurboModule \<open>CmSdkReactNativeV3\<close> with
  its argument. The module itself is a parameter \<open>native\<close>, giving for each call the
  promise the module returns.
\<close>

datatype native_call =
    Native_setWebViewConfig WebViewConfig
  | Native_setATTStatus number
  | Native_exportCMPInfo
  | Native_importCMPInfo string

text \<open>
  What one call of a wrapper does: the lines it writes with \<open>console.warn\<close>, the calls it
  makes across the bridge, in order, and how it completes: \<open>Inl\<close> a thrown error, \<open>Inr\<close>
  the value it returns.
\<close>

record 'r js_outcome =
  console :: "string list"
  bridge :: "native_call list"
  completion :: "error + 'r"

definition setWebViewConfig ::
  "string \<Rightarrow> processColor \<Rightarrow> (native_call \<Rightarrow> 'r) \<Rightarrow> WebViewConfig \<Rightarrow> 'r js_outcome" where
  "setWebViewConfig os pc native config =
     (case normalizeWebViewConfig os pc config of
        (w, Inl e) \<Rightarrow> \<lparr>console = w, bridge = [], completion = Inl e\<rparr>
      | (w, Inr normalized) \<Rightarrow>
          \<lparr>console = w, bridge = [Native_setWebViewConfig normalized],
           completion = Inr (native (Native_setWebViewConfig normalized))\<rparr>)"

text \<open>The local set \<open>allowed\<close> of \<open>setATTStatus\<close>; \<open>Set.has\<close> compares numbers by value.\<close>

definition allowed :: "number list" where
  "allowed =
     [ATTStatus_value NotDetermined, ATTStatus_value Restricted,
      ATTStatus_value Denied, ATTStatus_value Authorized]"

definition setATTStatus :: "(native_call \<Rightarrow> 'r) \<Rightarrow> number \<Rightarrow> 'r js_outcome" where
  "setATTStatus native status =
     (if status \<notin> set allowed
      then \<lparr>console = [], bridge = [], completion = Inl (InvalidATTStatus status)\<rparr>
      else \<lparr>console = [], bridge = [Native_setATTStatus status],
            completion = Inr (native (Native_setATTStatus status))\<rparr>)"

definition exportCMPInfo :: "(native_call \<Rightarrow> 'r) \<Rightarrow> 'r js_outcome" where
  "exportCMPInfo native =
     \<lparr>console = [], bridge = [Native_exportCMPInfo],
      completion = Inr (native Native_exportCMPInfo)\<rparr>"

definition importCMPInfo :: "(native_call \<Rightarrow> 'r) \<Rightarrow> string \<Rightarrow> 'r js_outcome" where
  "importCMPInfo native cmpString =
     \<lparr>console = [], bridge = [Native_importCMPInfo cmpString],
      completion = Inr (native (Native_importCMPInfo cmpString))\<rparr>"

section \<open>normalizeWebViewConfig on a store of objects\<close>

text \<open>
  JavaScript objects have identity and can be shared, so what the normalizer does to its
  argument is stated on a store. A reference is an index into the store; an object literal
  allocates at the end. A configuration object holds references to its rectangle and its
  background style.
\<close>

type_synonym ref = nat

record WebViewConfigObject =
  position_of :: "string option"
  customRect_ref :: "ref option"
  cornerRadius_of :: "number option"
  respectsSafeArea_of :: "bool option"
  allowsOrientationChanges_of :: "bool option"
  backgroundStyle_ref :: "ref option"

datatype js_object =
    RectObject WebViewRect
  | StyleObject WebViewBackgroundStyle
  | ConfigObject WebViewConfigObject

type_synonym store = "js_object list"

definition lookup :: "store \<Rightarrow> ref \<Rightarrow> js_object option" where
  "lookup h r = (if r < length h then Some (h ! r) else None)"

text \<open>
  Reading a property that holds a reference: \<open>None\<close> when the reference does not lead to
  an object of the right kind (the store is not one a typed caller can build), otherwise
  the optional value.
\<close>

fun rectAt :: "store \<Rightarrow> ref option \<Rightarrow> WebViewRect option option" where
  "rectAt h None = Some None"
| "rectAt h (Some r) =
     (case lookup h r of Some (RectObject rect) \<Rightarrow> Some (Some rect) | _ \<Rightarrow> None)"

fun styleAt :: "store \<Rightarrow> ref option \<Rightarrow> WebViewBackgroundStyle option option" where
  "styleAt h None = Some None"
| "styleAt h (Some r) =
     (case lookup h r of Some (StyleObject b) \<Rightarrow> Some (Some b) | _ \<Rightarrow> None)"

definition configAt :: "store \<Rightarrow> ref \<Rightarrow> WebViewConfig option" where
  "configAt h r =
     (case lookup h r of
        Some (ConfigObject ob) \<Rightarrow>
          (case (rectAt h (customRect_ref ob), styleAt h (backgroundStyle_ref ob)) of
             (Some rect, Some bg) \<Rightarrow>
               Some \<lparr>position = position_of ob, customRect = rect,
                     cornerRadius = cornerRadius_of ob,
                     respectsSafeArea = respectsSafeArea_of ob,
                     allowsOrientationChanges = allowsOrientationChanges_of ob,
                     backgroundStyle = bg\<rparr>
           | _ \<Rightarrow> None)
      | _ \<Rightarrow> None)"

text \<open>
  Evaluating the two object literals of a run that returns: the background style first,
  then the result, whose \<open>customRect\<close> property is the reference \<open>rectRef\<close>.
\<close>

definition allocConfig :: "store \<Rightarrow> ref option \<Rightarrow> WebViewConfig \<Rightarrow> store \<times> ref" where
  "allocConfig h rectRef out =
     (let (h1, bgRef) =
            (case backgroundStyle out of
               None \<Rightarrow> (h, None)
             | Some bg \<Rightarrow> (h @ [StyleObject bg], Some (length h)))
      in (h1 @ [ConfigObject
                  \<lparr>position_of = position out,
                   customRect_ref = rectRef,
                   cornerRadius_of = cornerRadius out,
                   respectsSafeArea_of = respectsSafeArea out,
                   allowsOrientationChanges_of = allowsOrientationChanges out,
                   backgroundStyle_ref = bgRef\<rparr>],
          length h1))"

text \<open>
  The function on the store. It reads the argument and has no assignment to a property;
  a run that throws leaves the store as it was. The result's \<open>customRect\<close> is the
  argument's reference (\<open>customRect: config.customRect\<close>). \<open>None\<close>: the argument is not a
  configuration object of the store.
\<close>

definition normalizeWebViewConfig_store ::
  "string \<Rightarrow> processColor \<Rightarrow> store \<Rightarrow> ref \<Rightarrow> (string list \<times> store \<times> (error + ref)) option" where
  "normalizeWebViewConfig_store os pc h r =
     (case (lookup h r, configAt h r) of
        (Some (ConfigObject ob), Some config) \<Rightarrow>
          Some (case normalizeWebViewConfig os pc config of
                  (w, Inl e) \<Rightarrow> (w, h, Inl e)
                | (w, Inr out) \<Rightarrow>
                    (let (h', r') = allocConfig h (customRect_ref ob) out
                     in (w, h', Inr r')))
      | _ \<Rightarrow> None)"

section \<open>The iOS implementation (ios/CmSdkReactNativeV3Impl.swift, the version with mapPosition)\<close>

subsection \<open>Delegate state and events\<close>

text \<open>
  The events sent to JavaScript, with their bodies. \<open>jsonObject\<close> is passed on as it is;
  its content is left open here.
\<close>

type_synonym jsonObject = "(string \<times> string) list"

datatype RNEvent =
    Event_didReceiveConsent string jsonObject
  | Event_didShowConsentLayer
  | Event_didCloseConsentLayer
  | Event_didReceiveError string
  | Event_onClickLink string
  | Event_didChangeATTStatus int int real

text \<open>
  The stored properties of \<open>CmSdkReactNativeV3Impl\<close> that change. \<open>eventEmitter\<close> is the
  module object, which creates this object in its \<open>init\<close> and keeps it in a strong
  property, so the weak reference back is live whenever a callback runs; \<open>emitted\<close> is the
  list of events given to its \<open>sendEvent\<close>, oldest first.
\<close>

record Impl =
  hasListeners :: bool
  isConsentLayerShown :: bool
  shouldHandleLinkClicks :: bool
  emitted :: "RNEvent list"

definition Impl_init :: Impl where
  "Impl_init =
     \<lparr>hasListeners = False, isConsentLayerShown = False,
      shouldHandleLinkClicks = False, emitted = []\<rparr>"

definition sendEvent :: "Impl \<Rightarrow> RNEvent \<Rightarrow> Impl" where
  "sendEvent s ev = s\<lparr>emitted := emitted s @ [ev]\<rparr>"

definition didReceiveConsent :: "Impl \<Rightarrow> string \<Rightarrow> jsonObject \<Rightarrow> Impl" where
  "didReceiveConsent s consent js = sendEvent s (Event_didReceiveConsent consent js)"

definition didShowConsentLayer :: "Impl \<Rightarrow> Impl" where
  "didShowConsentLayer s =
     sendEvent (s\<lparr>isConsentLayerShown := True, shouldHandleLinkClicks := True\<rparr>)
       Event_didShowConsentLayer"

definition didCloseConsentLayer :: "Impl \<Rightarrow> Impl" where
  "didCloseConsentLayer s =
     (if isConsentLayerShown s
      then sendEvent (s\<lparr>isConsentLayerShown := False, shouldHandleLinkClicks := False\<rparr>)
             Event_didCloseConsentLayer
      else s)"

definition didReceiveError :: "Impl \<Rightarrow> string \<Rightarrow> Impl" where
  "didReceiveError s err = sendEvent s (Event_didReceiveError err)"

text \<open>\<open>lastUpdated\<close> is a \<open>Date?\<close>, given as its \<open>timeIntervalSince1970\<close>.\<close>

definition didChangeATTStatus :: "Impl \<Rightarrow> int \<Rightarrow> int \<Rightarrow> real option \<Rightarrow> Impl" where
  "didChangeATTStatus s oldStatus newStatus lastUpdated =
     sendEvent s (Event_didChangeATTStatus oldStatus newStatus (coalesce lastUpdated 0))"

text \<open>\<open>String.contains\<close> for a non-empty argument: the argument occurs as a substring.\<close>

fun contains :: "string \<Rightarrow> string \<Rightarrow> bool" where
  "contains [] sub = (sub = [])"
| "contains (c # cs) sub = (prefix sub (c # cs) \<or> contains cs sub)"

text \<open>
  The closure given to \<open>setLinkClickHandler\<close>, applied to \<open>url.absoluteString\<close>: the
  Boolean it returns and the state after it.
\<close>

definition linkClickHandler :: "Impl \<Rightarrow> string \<Rightarrow> bool \<times> Impl" where
  "linkClickHandler s urlString =
     (if \<not> shouldHandleLinkClicks s then (False, s)
      else
        (\<not> contains urlString ''google.com'' \<or> contains urlString ''privacy'' \<or>
           contains urlString ''terms'',
         sendEvent s (Event_onClickLink urlString)))"

text \<open>What the native SDK can call on the object, and a run of such calls.\<close>

datatype delegate_call =
    DidReceiveConsent string jsonObject
  | DidShowConsentLayer
  | DidCloseConsentLayer
  | DidReceiveError string
  | DidChangeATTStatus int int "real option"
  | LinkClick string

fun deliver :: "Impl \<Rightarrow> delegate_call \<Rightarrow> Impl" where
  "deliver s (DidReceiveConsent consent js) = didReceiveConsent s consent js"
| "deliver s DidShowConsentLayer = didShowConsentLayer s"
| "deliver s DidCloseConsentLayer = didCloseConsentLayer s"
| "deliver s (DidReceiveError err) = didReceiveError s err"
| "deliver s (DidChangeATTStatus oldStatus newStatus lastUpdated) =
     didChangeATTStatus s oldStatus newStatus lastUpdated"
| "deliver s (LinkClick urlString) = snd (linkClickHandler s urlString)"

definition run :: "Impl \<Rightarrow> delegate_call list \<Rightarrow> Impl" where
  "run s calls = foldl deliver s calls"

subsection \<open>Geometry (mapPosition, rectFromDictionary, currentSafeAreaInsets)\<close>

text \<open>
  \<open>CGFloat\<close> and \<open>Double\<close> values are reals: the code adds, subtracts and halves them,
  and what is stated below is which expression each coordinate is, not how it is rounded.
  \<open>UIEdgeInsets\<close> and \<open>CGRect\<close> (as built by \<open>CGRect(x:y:width:height:)\<close>) are records with
  prefixed field names.
\<close>

record UIEdgeInsets =
  inset_top :: real
  inset_left :: real
  inset_bottom :: real
  inset_right :: real

definition UIEdgeInsets_zero :: UIEdgeInsets where
  "UIEdgeInsets_zero = \<lparr>inset_top = 0, inset_left = 0, inset_bottom = 0, inset_right = 0\<rparr>"

record CGRect =
  cg_x :: real
  cg_y :: real
  cg_width :: real
  cg_height :: real

text \<open>The SDK's \<open>Position\<close>, with the two cases the bridge builds.\<close>

datatype Position = Position_fullScreen | Position_custom CGRect

datatype UIColor = UIColor_black | UIColor_argb real

text \<open>
  What the code reads from UIKit and React: the safe-area insets of the key window
  (\<open>None\<close>: there is no such window), \<open>UIScreen.main.bounds\<close> and \<open>RCTConvert.uiColor\<close>.
\<close>

record UIEnvironment =
  window_safeAreaInsets :: "UIEdgeInsets option"
  screenBounds :: CGRect
  RCTConvert_uiColor :: "ColorValue \<Rightarrow> UIColor option"

definition currentSafeAreaInsets :: "UIEnvironment \<Rightarrow> UIEdgeInsets" where
  "currentSafeAreaInsets env = coalesce (window_safeAreaInsets env) UIEdgeInsets_zero"

text \<open>
  A \<open>[String: Any]\<close> dictionary is a record of what the code reads from it: each field is
  the result of the conditional cast the code applies to that key (\<open>dict["x"] as? Double\<close>,
  \<open>config["position"] as? String\<close>, ...), \<open>None\<close> when the key is absent or the cast fails.
\<close>

record RectDictionary =
  dict_x :: "real option"
  dict_y :: "real option"
  dict_width :: "real option"
  dict_height :: "real option"

record BackgroundDictionary =
  bg_type :: "string option"
  bg_color :: "ColorValue option"
  bg_opacity :: "real option"
  bg_blurEffectStyle :: "string option"

record ConfigDictionary =
  cfg_position :: "string option"
  cfg_customRect :: "RectDictionary option"
  cfg_cornerRadius :: "real option"
  cfg_respectsSafeArea :: "bool option"
  cfg_allowsOrientationChanges :: "bool option"
  cfg_backgroundStyle :: "BackgroundDictionary option"

definition rectFromDictionary :: "UIEnvironment \<Rightarrow> RectDictionary \<Rightarrow> bool \<Rightarrow> CGRect option" where
  "rectFromDictionary env dict respectsSafeArea' =
     (case (dict_x dict, dict_y dict, dict_width dict, dict_height dict) of
        (Some x, Some y, Some width, Some height) \<Rightarrow>
          (let insets = (if respectsSafeArea' then currentSafeAreaInsets env
                         else UIEdgeInsets_zero)
           in Some \<lparr>cg_x = x + inset_left insets,
                     cg_y = y + inset_top insets,
                     cg_width = width - (inset_left insets + inset_right insets),
                     cg_height = height - (inset_top insets + inset_bottom insets)\<rparr>)
      | _ \<Rightarrow> None)"

definition mapPosition :: "UIEnvironment \<Rightarrow> ConfigDictionary \<Rightarrow> bool \<Rightarrow> Position" where
  "mapPosition env config respectsSafeArea' =
     (case (if cfg_position config = Some ''custom''
            then (case cfg_customRect config of
                    None \<Rightarrow> None
                  | Some rectValue \<Rightarrow> rectFromDictionary env rectValue respectsSafeArea')
            else None) of
        Some rect \<Rightarrow> Position_custom rect
      | None \<Rightarrow>
          (let insets = currentSafeAreaInsets env;
               usableHeight =
                 cg_height (screenBounds env) -
                   (if respectsSafeArea' then inset_top insets + inset_bottom insets else 0);
               halfHeight = usableHeight / 2
           in
             case cfg_position config of
               None \<Rightarrow> Position_fullScreen
             | Some positionValue \<Rightarrow>
                 if positionValue = ''halfScreenTop'' then
                   Position_custom
                     \<lparr>cg_x = 0,
                      cg_y = (if respectsSafeArea' then inset_top insets else 0),
                      cg_width = cg_width (screenBounds env),
                      cg_height = halfHeight\<rparr>
                 else if positionValue = ''halfScreenBottom'' then
                   Position_custom
                     \<lparr>cg_x = 0,
                      cg_y = (if respectsSafeArea' then inset_top insets else 0) + halfHeight,
                      cg_width = cg_width (screenBounds env),
                      cg_height = halfHeight\<rparr>
                 else Position_fullScreen))"

subsection \<open>Background style (mapBackgroundStyle)\<close>

datatype UIBlurEffect_Style = Style_extraLight | Style_light | Style_dark

text \<open>The SDK's \<open>BackgroundStyle\<close> enumeration.\<close>

datatype SDK_BackgroundStyle =
    SDK_dimmed UIColor real
  | SDK_color UIColor
  | SDK_blur UIBlurEffect_Style
  | SDK_none

definition mapBackgroundStyle :: "UIEnvironment \<Rightarrow> ConfigDictionary \<Rightarrow> SDK_BackgroundStyle" where
  "mapBackgroundStyle env config =
     (case cfg_backgroundStyle config of
        None \<Rightarrow> SDK_dimmed UIColor_black 0.5
      | Some backgroundConfig \<Rightarrow>
          (case bg_type backgroundConfig of
             None \<Rightarrow> SDK_dimmed UIColor_black 0.5
           | Some t \<Rightarrow>
               if t = ''dimmed'' then
                 SDK_dimmed
                   (coalesce (RCTConvert_uiColor env
                                (coalesce (bg_color backgroundConfig) (ColorString ''black'')))
                      UIColor_black)
                   (coalesce (bg_opacity backgroundConfig) 0.5)
               else if t = ''color'' then
                 SDK_color
                   (coalesce (RCTConvert_uiColor env
                                (coalesce (bg_color backgroundConfig) (ColorString ''black'')))
                      UIColor_black)
               else if t = ''blur'' then
                 (let styleString = coalesce (bg_blurEffectStyle backgroundConfig) ''dark''
                  in SDK_blur
                       (if styleString = ''extraLight'' then Style_extraLight
                        else if styleString = ''light'' then Style_light
                        else Style_dark))
               else if t = ''none'' then SDK_none
               else SDK_dimmed UIColor_black 0.5))"

subsection \<open>Bridge methods\<close>

record ConsentLayerUIConfig =
  ui_position :: Position
  ui_backgroundStyle :: SDK_BackgroundStyle
  ui_cornerRadius :: real
  ui_respectsSafeArea :: bool
  ui_allowsOrientationChanges :: bool

text \<open>
  The native SDK (\<open>CMPManager.shared\<close>) is not part of the repository. What the bridge
  methods below need of it are parameters: the string \<open>exportCMPInfo()\<close> returns, and for
  each string the error \<open>importCMPInfo\<close> hands to its completion (\<open>None\<close>: \<open>nil\<close>,
  \<open>Some d\<close>: an error whose \<open>localizedDescription\<close> is \<open>d\<close>).
\<close>

record CMPManager =
  cmp_exportCMPInfo :: string
  cmp_importCMPInfo :: "string \<Rightarrow> string option"

text \<open>The calls a bridge method makes on the SDK, and how it settles its promise.\<close>

datatype sdk_call =
    CMP_setWebViewConfig ConsentLayerUIConfig
  | CMP_setATTStatus int
  | CMP_exportCMPInfo
  | CMP_importCMPInfo string

datatype js_value = JS_null | JS_bool bool | JS_string string

datatype RCTPromise = Resolve js_value | Reject string string

definition impl_setWebViewConfig ::
  "UIEnvironment \<Rightarrow> ConfigDictionary \<Rightarrow> sdk_call list \<times> RCTPromise" where
  "impl_setWebViewConfig env config =
     (let cornerRadius' = coalesce (cfg_cornerRadius config) 5;
          respectsSafeArea' = coalesce (cfg_respectsSafeArea config) True;
          allowsOrientationChanges' = coalesce (cfg_allowsOrientationChanges config) True;
          position' = mapPosition env config respectsSafeArea';
          backgroundStyle' = mapBackgroundStyle env config
      in ([CMP_setWebViewConfig
             \<lparr>ui_position = position', ui_backgroundStyle = backgroundStyle',
              ui_cornerRadius = cornerRadius', ui_respectsSafeArea = respectsSafeArea',
              ui_allowsOrientationChanges = allowsOrientationChanges'\<rparr>],
          Resolve JS_null))"

definition impl_setATTStatus :: "int \<Rightarrow> sdk_call list \<times> RCTPromise" where
  "impl_setATTStatus status = ([CMP_setATTStatus status], Resolve JS_null)"

definition impl_exportCMPInfo :: "CMPManager \<Rightarrow> sdk_call list \<times> RCTPromise" where
  "impl_exportCMPInfo sdk = ([CMP_exportCMPInfo], Resolve (JS_string (cmp_exportCMPInfo sdk)))"

definition impl_importCMPInfo :: "CMPManager \<Rightarrow> string \<Rightarrow> sdk_call list \<times> RCTPromise" where
  "impl_importCMPInfo sdk cmpString =
     ([CMP_importCMPInfo cmpString],
      (case cmp_importCMPInfo sdk cmpString of
         Some d \<Rightarrow> Reject ''ERROR'' (''Failed to import CMP info: '' @ d)
       | None \<Rightarrow> Resolve (JS_bool True)))"

subsection \<open>The Objective-C module (CmSdkReactNativeV3.mm)\<close>

text \<open>
  \<open>setWebViewConfig:\<close> copies the properties that are present into the dictionary it hands
  to the Swift object; a rectangle always comes with its four numbers. The background
  style arrives as a dictionary (an object that answers \<open>objectForKey:\<close>), of which the
  four known keys are copied.
\<close>

definition configDict :: "WebViewConfig \<Rightarrow> ConfigDictionary" where
  "configDict config =
     \<lparr>cfg_position = position config,
      cfg_customRect =
        map_option
          (\<lambda>rect. \<lparr>dict_x = Some (rect_x rect), dict_y = Some (rect_y rect),
                   dict_width = Some (rect_width rect), dict_height = Some (rect_height rect)\<rparr>)
          (customRect config),
      cfg_cornerRadius = cornerRadius config,
      cfg_respectsSafeArea = respectsSafeArea config,
      cfg_allowsOrientationChanges = allowsOrientationChanges config,
      cfg_backgroundStyle =
        map_option
          (\<lambda>bgStyle. \<lparr>bg_type = Some (type bgStyle), bg_color = color bgStyle,
                      bg_opacity = opacity bgStyle,
                      bg_blurEffectStyle = blurEffectStyle bgStyle\<rparr>)
          (backgroundStyle config)\<rparr>"

text \<open>The cast \<open>(NSInteger)status\<close> of a \<open>double\<close> drops the fraction.\<close>

definition NSInteger_of :: "real \<Rightarrow> int" where
  "NSInteger_of d = (if 0 \<le> d then \<lfloor>d\<rfloor> else \<lceil>d\<rceil>)"

definition iosTurboModule ::
  "UIEnvironment \<Rightarrow> CMPManager \<Rightarrow> native_call \<Rightarrow> sdk_call list \<times> RCTPromise" where
  "iosTurboModule env sdk call =
     (case call of
        Native_setWebViewConfig config \<Rightarrow> impl_setWebViewConfig env (configDict config)
      | Native_setATTStatus status \<Rightarrow> impl_setATTStatus (NSInteger_of status)
      | Native_exportCMPInfo \<Rightarrow> impl_exportCMPInfo sdk
      | Native_importCMPInfo cmpString \<Rightarrow> impl_importCMPInfo sdk cmpString)"

section \<open>Fixtures\<close>

text \<open>
  The native module of the repository's jest mock (\<open>mockNativeModule\<close>), by the value each
  mocked method resolves with.
\<close>

definition mock_native :: "native_call \<Rightarrow> js_value" where
  "mock_native call =
     (case call of
        Native_setWebViewConfig c \<Rightarrow> JS_null
      | Native_setATTStatus n \<Rightarrow> JS_null
      | Native_exportCMPInfo \<Rightarrow> JS_string ''exported-cmp-string''
      | Native_importCMPInfo s \<Rightarrow> JS_bool True)"

text \<open>
  A device with a notch, in portrait: the safe-area insets and screen bounds of a
  390 by 844 point screen. \<open>RCTConvert.uiColor\<close> turns a number into that colour and has no
  result for a string.
\<close>

definition notch_env :: UIEnvironment where
  "notch_env =
     \<lparr>window_safeAreaInsets =
        Some \<lparr>inset_top = 47, inset_left = 0, inset_bottom = 34, inset_right = 0\<rparr>,
      screenBounds = \<lparr>cg_x = 0, cg_y = 0, cg_width = 390, cg_height = 844\<rparr>,
      RCTConvert_uiColor =
        (\<lambda>c. case c of ColorNumber n \<Rightarrow> Some (UIColor_argb n) | ColorString s \<Rightarrow> None)\<rparr>"

text \<open>An SDK whose \<open>importCMPInfo\<close> completes without error exactly for its own export.\<close>

definition strict_sdk :: CMPManager where
  "strict_sdk =
     \<lparr>cmp_exportCMPInfo = ''exported-cmp-string'',
      cmp_importCMPInfo =
        (\<lambda>s. if s = ''exported-cmp-string'' then None else Some ''not a CMP string'')\<rparr>"

text \<open>
  A store with a rectangle no range check would pass and a configuration object that
  holds a reference to it and sets nothing else.
\<close>

definition sample_store :: store where
  "sample_store =
     [RectObject \<lparr>rect_x = - 5, rect_y = - 7, rect_width = 0, rect_height = - 1\<rparr>,
      ConfigObject
        \<lparr>position_of = None, customRect_ref = Some 0, cornerRadius_of = None,
         respectsSafeArea_of = None, allowsOrientationChanges_of = None,
         backgroundStyle_ref = None\<rparr>]"

section \<open>Abbreviations used in the statements\<close>

text \<open>The two flags of the delegate, as a pair.\<close>

definition flags :: "Impl \<Rightarrow> bool \<times> bool" where
  "flags s = (isConsentLayerShown s, shouldHandleLinkClicks s)"

text \<open>The local \<open>usableHeight\<close> of \<open>mapPosition\<close>.\<close>

definition usableHeight :: "UIEnvironment \<Rightarrow> bool \<Rightarrow> real" where
  "usableHeight env respectsSafeArea' =
     cg_height (screenBounds env) -
       (if respectsSafeArea'
        then inset_top (currentSafeAreaInsets env) + inset_bottom (currentSafeAreaInsets env)
        else 0)"

section \<open>Properties to be checked, in the words of the specification\<close>

text \<open>
  The ordering of the layer events in a list of emitted events, read from the oldest:
  \<open>shown\<close> says that a layer-shown event has been seen since the last layer-closed event.
  The list is in order when every layer-closed event comes with \<open>shown\<close> true.
\<close>

fun close_follows_show :: "bool \<Rightarrow> RNEvent list \<Rightarrow> bool" where
  "close_follows_show shown [] = True"
| "close_follows_show shown (Event_didShowConsentLayer # es) = close_follows_show True es"
| "close_follows_show shown (Event_didCloseConsentLayer # es) =
     (shown \<and> close_follows_show False es)"
| "close_follows_show shown (e # es) = close_follows_show shown es"

text \<open>Whether a layer-shown event has been seen since the last layer-closed event.\<close>

fun shown_after :: "bool \<Rightarrow> RNEvent list \<Rightarrow> bool" where
  "shown_after shown [] = shown"
| "shown_after shown (Event_didShowConsentLayer # es) = shown_after True es"
| "shown_after shown (Event_didCloseConsentLayer # es) = shown_after False es"
| "shown_after shown (e # es) = shown_after shown es"

text \<open>
  Modelled from the spec: the native SDK (\<open>cm_sdk_ios_v3\<close>, class \<open>CMPManager\<close>) is not among
  the sources, only its calls are. The specification delegates the success of the round
  trip to it ("delegated to native SDK; bridge must not alter the opaque string"), and
  the wrapper's documentation says of the exported string that it "can be imported later
  using \<open>importCMPInfo\<close>". So the SDK is taken to import its own export: the completion of
  \<open>importCMPInfo\<close>, called with the string \<open>exportCMPInfo()\<close> returns, reports no error.
\<close>

definition imports_own_export :: "CMPManager \<Rightarrow> bool" where
  "imports_own_export sdk = (cmp_importCMPInfo sdk (cmp_exportCMPInfo sdk) = None)"

text \<open>
  The round trip of the specification: \<open>exportCMPInfo()\<close> on iOS, and, when its promise
  resolves with a string, \<open>importCMPInfo\<close> of that string. \<open>None\<close>: the export did not
  resolve with a string.
\<close>

definition exportThenImport ::
  "UIEnvironment \<Rightarrow> CMPManager \<Rightarrow> (sdk_call list \<times> RCTPromise) js_outcome option" where
  "exportThenImport env sdk =
     (case completion (exportCMPInfo (iosTurboModule env sdk)) of
        Inr (calls, Resolve (JS_string info)) \<Rightarrow>
          Some (importCMPInfo (iosTurboModule env sdk) info)
      | _ \<Rightarrow> None)"

section \<open>The background style factory\<close>

text \<open>
  C3. Each of the four factories returns the object of its variant: the tag is the
  variant's, an optional parameter that is left out stays undefined (\<open>dimmed()\<close> is
  \<open>{type: 'dimmed', color: undefined, opacity: undefined}\<close>), \<open>blur()\<close> takes the style
  \<open>'dark'\<close>, \<open>none()\<close> has no payload. The equations hold for every argument, so no
  argument is rejected or changed.
\<close>

theorem BackgroundStyle_factory_variants:
  "BackgroundStyle_dimmed c opac =
     \<lparr>type = BackgroundStyleType_value Dimmed, color = c, opacity = opac,
      blurEffectStyle = None\<rparr> \<and>
   BackgroundStyle_dimmed None None =
     \<lparr>type = ''dimmed'', color = None, opacity = None, blurEffectStyle = None\<rparr> \<and>
   BackgroundStyle_color c =
     \<lparr>type = BackgroundStyleType_value Color, color = c, opacity = None,
      blurEffectStyle = None\<rparr> \<and>
   BackgroundStyle_blur (Some style) =
     \<lparr>type = BackgroundStyleType_value Blur, color = None, opacity = None,
      blurEffectStyle = Some style\<rparr> \<and>
   BackgroundStyle_blur None =
     \<lparr>type = ''blur'', color = None, opacity = None, blurEffectStyle = Some ''dark''\<rparr> \<and>
   BackgroundStyle_blur (Some ''light'') =
     \<lparr>type = ''blur'', color = None, opacity = None, blurEffectStyle = Some ''light''\<rparr> \<and>
   BackgroundStyle_none =
     \<lparr>type = BackgroundStyleType_value NoneStyle, color = None, opacity = None,
      blurEffectStyle = None\<rparr>"
  by (simp add: BackgroundStyle_dimmed_def BackgroundStyle_color_def BackgroundStyle_blur_def
      BackgroundStyle_none_def)

text \<open>The factory at the arguments of the repository's tests, and at ones no check would pass.\<close>

theorem BackgroundStyle_factory_variants_witness:
  "BackgroundStyle_dimmed (Some (ColorString ''red'')) None =
     \<lparr>type = ''dimmed'', color = Some (ColorString ''red''), opacity = None,
      blurEffectStyle = None\<rparr> \<and>
   BackgroundStyle_color None =
     \<lparr>type = ''color'', color = None, opacity = None, blurEffectStyle = None\<rparr> \<and>
   BackgroundStyle_blur (Some ''no such style'') =
     \<lparr>type = ''blur'', color = None, opacity = None,
      blurEffectStyle = Some ''no such style''\<rparr>"
  using BackgroundStyle_factory_variants [of "Some (ColorString ''red'')" None "''no such style''"]
    BackgroundStyle_factory_variants [of None None "''no such style''"]
  by simp

section \<open>The normalizer\<close>

lemma normalizeBackgroundStyle_unset:
  "normalizeBackgroundStyle os pc None =
     (case pc (ColorString ''black'') of
        None \<Rightarrow> ([], Inl (InvalidColorValue (ColorString ''black'')))
      | Some k \<Rightarrow> ([], Inr \<lparr>type = ''dimmed'', color = Some (ColorNumber k),
                            opacity = Some 0.5, blurEffectStyle = None\<rparr>))"
  by (simp add: normalizeBackgroundStyle_def normalizeColor_def processedColor_def
      split: option.splits)

text \<open>A run that returns has passed every check, and its result is this object.\<close>

lemma normalizeWebViewConfig_Inr:
  assumes "normalizeWebViewConfig os pc config = (w, Inr out)"
  shows "\<exists>w2 bg. normalizeBackgroundStyle os pc (backgroundStyle config) = (w2, Inr bg) \<and>
     out = \<lparr>position = Some (coalesce (position config) ''fullScreen''),
            customRect = customRect config,
            cornerRadius = Some (coalesce (cornerRadius config) 5),
            respectsSafeArea = Some (coalesce (respectsSafeArea config) True),
            allowsOrientationChanges = Some (coalesce (allowsOrientationChanges config) True),
            backgroundStyle = Some bg\<rparr>"
  using assms
  by (simp add: normalizeWebViewConfig_def Let_def split: if_splits prod.splits sum.splits)

lemma mock_processColor_black: "mock_processColor (ColorString ''black'') = Some 4278190080"
  by (simp add: mock_processColor_def)



text \<open>
  The result keeps the rectangle of the input, and a run that returns would return the
  same with any other rectangle in its place.
\<close>

lemma normalizeWebViewConfig_customRect:
  assumes "normalizeWebViewConfig os pc config = (w, Inr out)"
  shows "customRect out = customRect config \<and>
         normalizeWebViewConfig os pc (config\<lparr>customRect := Some rect\<rparr>) =
           (w, Inr (out\<lparr>customRect := Some rect\<rparr>))"
proof -
  from normalizeWebViewConfig_Inr [OF assms] obtain w2 bg where
    bg: "normalizeBackgroundStyle os pc (backgroundStyle config) = (w2, Inr bg)" and
    out: "out = \<lparr>position = Some (coalesce (position config) ''fullScreen''),
            customRect = customRect config,
            cornerRadius = Some (coalesce (cornerRadius config) 5),
            respectsSafeArea = Some (coalesce (respectsSafeArea config) True),
            allowsOrientationChanges = Some (coalesce (allowsOrientationChanges config) True),
            backgroundStyle = Some bg\<rparr>" by blast
  have ok: "coalesce (position config) ''fullScreen'' \<in> set allowedPositions"
    using assms by (simp add: normalizeWebViewConfig_def Let_def split: if_splits)
  have w: "w = (if coalesce (position config) ''fullScreen'' = ''custom'' \<and> os = ''android''
                then [warn_customRect] else []) @ w2 @
               (if os = ''android'' \<and> backgroundStyle config \<noteq> None
                then [warn_backgroundStyle] else [])"
    using assms bg ok by (simp add: normalizeWebViewConfig_def Let_def split: if_splits)
  show ?thesis
    using bg ok by (simp add: out w normalizeWebViewConfig_def Let_def)
qed

section \<open>The normalizer on the store\<close>

lemma lookup_append: "lookup h r = Some ob \<Longrightarrow> lookup (h @ xs) r = Some ob"
  by (auto simp: lookup_def nth_append split: if_splits)

lemma rectAt_append: "rectAt h rr = Some v \<Longrightarrow> rectAt (h @ xs) rr = Some v"
  by (cases rr) (auto simp: lookup_append split: option.splits js_object.splits)

lemma styleAt_append: "styleAt h rr = Some v \<Longrightarrow> styleAt (h @ xs) rr = Some v"
  by (cases rr) (auto simp: lookup_append split: option.splits js_object.splits)

lemma configAt_append: "configAt h r = Some c \<Longrightarrow> configAt (h @ xs) r = Some c"
  by (auto simp: configAt_def lookup_append rectAt_append styleAt_append
      split: option.splits js_object.splits)

lemma configAt_rect:
  "lookup h r = Some (ConfigObject ob) \<Longrightarrow> configAt h r = Some c \<Longrightarrow>
   rectAt h (customRect_ref ob) = Some (customRect c)"
  by (auto simp: configAt_def split: option.splits)

lemma lookup_last: "lookup (h @ [ob]) (length h) = Some ob"
  by (simp add: lookup_def)

text \<open>The two literals are new objects behind the old store, and they read back as \<open>out\<close>.\<close>

lemma allocConfig_result:
  assumes "allocConfig h rr out = (h', r')" and "rectAt h rr = Some (customRect out)"
  shows "take (length h) h' = h \<and> length h \<le> r' \<and> r' < length h' \<and>
         (\<exists>ob'. lookup h' r' = Some (ConfigObject ob') \<and> customRect_ref ob' = rr) \<and>
         configAt h' r' = Some out"
proof (cases "backgroundStyle out")
  case None
  with assms(1) have h': "h' = h @ [ConfigObject
                  \<lparr>position_of = position out, customRect_ref = rr,
                   cornerRadius_of = cornerRadius out,
                   respectsSafeArea_of = respectsSafeArea out,
                   allowsOrientationChanges_of = allowsOrientationChanges out,
                   backgroundStyle_ref = None\<rparr>]" and r': "r' = length h"
    by (auto simp: allocConfig_def)
  have "rectAt h' rr = Some (customRect out)"
    unfolding h' by (rule rectAt_append [OF assms(2)])
  then show ?thesis using None
    by (simp add: h' r' lookup_last configAt_def del: styleAt.simps(2) rectAt.simps)
next
  case (Some bg)
  with assms(1) have h': "h' = (h @ [StyleObject bg]) @ [ConfigObject
                  \<lparr>position_of = position out, customRect_ref = rr,
                   cornerRadius_of = cornerRadius out,
                   respectsSafeArea_of = respectsSafeArea out,
                   allowsOrientationChanges_of = allowsOrientationChanges out,
                   backgroundStyle_ref = Some (length h)\<rparr>]" and r': "r' = Suc (length h)"
    by (auto simp: allocConfig_def)
  have rect: "rectAt h' rr = Some (customRect out)"
    unfolding h' append_assoc by (rule rectAt_append [OF assms(2)])
  have "lookup (h @ [StyleObject bg]) (length h) = Some (StyleObject bg)"
    by (rule lookup_last)
  then have "lookup h' (length h) = Some (StyleObject bg)"
    unfolding h' by (rule lookup_append)
  then have style: "styleAt h' (Some (length h)) = Some (Some bg)" by simp
  have last: "lookup h' (Suc (length h)) = Some (ConfigObject
                  \<lparr>position_of = position out, customRect_ref = rr,
                   cornerRadius_of = cornerRadius out,
                   respectsSafeArea_of = respectsSafeArea out,
                   allowsOrientationChanges_of = allowsOrientationChanges out,
                   backgroundStyle_ref = Some (length h)\<rparr>)"
    using lookup_last [of "h @ [StyleObject bg]"] by (simp add: h')
  have "configAt h' r' = Some out"
    using Some by (simp add: configAt_def r' last rect style del: styleAt.simps rectAt.simps)
  moreover have "take (length h) h' = h" by (simp add: h')
  moreover have "r' < length h'" by (simp add: h' r')
  ultimately show ?thesis using last by (simp add: r')
qed

lemma store_run:
  assumes "normalizeWebViewConfig_store os pc h r = Some (w, h', res)"
  shows "\<exists>ob config res0.
           lookup h r = Some (ConfigObject ob) \<and> configAt h r = Some config \<and>
           normalizeWebViewConfig os pc config = (w, res0) \<and>
           ((\<exists>e. res0 = Inl e \<and> h' = h \<and> res = Inl e) \<or>
            (\<exists>out r'. res0 = Inr out \<and>
               allocConfig h (customRect_ref ob) out = (h', r') \<and> res = Inr r'))"
proof -
  from assms obtain ob config where ob: "lookup h r = Some (ConfigObject ob)"
    and config: "configAt h r = Some config"
    by (simp add: normalizeWebViewConfig_store_def split: option.splits js_object.splits)
  obtain w0 res0 where n: "normalizeWebViewConfig os pc config = (w0, res0)"
    by (cases "normalizeWebViewConfig os pc config")
  show ?thesis
  proof (cases res0)
    case (Inl e)
    with assms ob config n show ?thesis
      by (simp add: normalizeWebViewConfig_store_def)
  next
    case (Inr out)
    obtain h2 r2 where al: "allocConfig h (customRect_ref ob) out = (h2, r2)"
      by (cases "allocConfig h (customRect_ref ob) out")
    with assms ob config n Inr show ?thesis
      by (simp add: normalizeWebViewConfig_store_def)
  qed
qed

text \<open>
  C10. On the store: after a run of \<open>normalizeWebViewConfig\<close> every object of the old store
  is what it was (so the argument reads as before), and the result of a run that returns
  is a new object, not one of the old store, whose \<open>customRect\<close> is the very reference the
  argument holds and which reads as the value the function computes. On values: the
  result's \<open>customRect\<close> is the input's, and with any other rectangle in the input the run
  returns the same warnings and the same result around that rectangle: no property of
  the rectangle is checked, whatever the position.
\<close>

theorem normalizeWebViewConfig_frame:
  "(normalizeWebViewConfig_store os pc h r = Some (w, h', res) \<longrightarrow>
      take (length h) h' = h \<and>
      configAt h' r = configAt h r \<and>
      (\<forall>r'. res = Inr r' \<longrightarrow>
         length h \<le> r' \<and> r' < length h' \<and>
         (\<exists>ob ob' config out.
            lookup h r = Some (ConfigObject ob) \<and>
            lookup h' r' = Some (ConfigObject ob') \<and>
            customRect_ref ob' = customRect_ref ob \<and>
            configAt h r = Some config \<and> configAt h' r' = Some out \<and>
            normalizeWebViewConfig os pc config = (w, Inr out)))) \<and>
   (normalizeWebViewConfig os pc config = (w, Inr out) \<longrightarrow>
      customRect out = customRect config \<and>
      normalizeWebViewConfig os pc (config\<lparr>customRect := Some rect\<rparr>) =
        (w, Inr (out\<lparr>customRect := Some rect\<rparr>)))"
proof (intro conjI impI)
  assume a: "normalizeWebViewConfig_store os pc h r = Some (w, h', res)"
  from store_run [OF a] obtain ob cfg res0 where ob: "lookup h r = Some (ConfigObject ob)"
    and cfg: "configAt h r = Some cfg"
    and n: "normalizeWebViewConfig os pc cfg = (w, res0)"
    and run: "(\<exists>e. res0 = Inl e \<and> h' = h \<and> res = Inl e) \<or>
            (\<exists>out r'. res0 = Inr out \<and>
               allocConfig h (customRect_ref ob) out = (h', r') \<and> res = Inr r')"
    by blast
  have facts: "take (length h) h' = h \<and>
      (\<forall>r'. res = Inr r' \<longrightarrow>
         length h \<le> r' \<and> r' < length h' \<and>
         (\<exists>ob ob' config out.
            lookup h r = Some (ConfigObject ob) \<and>
            lookup h' r' = Some (ConfigObject ob') \<and>
            customRect_ref ob' = customRect_ref ob \<and>
            configAt h r = Some config \<and> configAt h' r' = Some out \<and>
            normalizeWebViewConfig os pc config = (w, Inr out)))"
    using run
  proof (elim disjE exE conjE)
    fix e assume "res0 = Inl e" "h' = h" "res = Inl e"
    then show ?thesis by simp
  next
    fix out0 r0
    assume Inr: "res0 = Inr out0"
      and al: "allocConfig h (customRect_ref ob) out0 = (h', r0)" and res: "res = Inr r0"
    have n': "normalizeWebViewConfig os pc cfg = (w, Inr out0)" using n Inr by simp
    have rect: "rectAt h (customRect_ref ob) = Some (customRect out0)"
      using configAt_rect [OF ob cfg] normalizeWebViewConfig_customRect [OF n'] by simp
    from allocConfig_result [OF al rect] obtain ob' where
      t: "take (length h) h' = h" and lo: "length h \<le> r0" and hi: "r0 < length h'"
      and ob': "lookup h' r0 = Some (ConfigObject ob')" "customRect_ref ob' = customRect_ref ob"
      and c': "configAt h' r0 = Some out0"
      by blast
    show ?thesis using t lo hi ob' c' ob cfg n' res by blast
  qed
  from facts show "take (length h) h' = h" by simp
  then obtain xs where "h' = h @ xs" by (metis append_take_drop_id)
  then show "configAt h' r = configAt h r"
    using configAt_append [OF cfg] cfg by simp
  from facts show "\<forall>r'. res = Inr r' \<longrightarrow>
         length h \<le> r' \<and> r' < length h' \<and>
         (\<exists>ob ob' config out.
            lookup h r = Some (ConfigObject ob) \<and>
            lookup h' r' = Some (ConfigObject ob') \<and>
            customRect_ref ob' = customRect_ref ob \<and>
            configAt h r = Some config \<and> configAt h' r' = Some out \<and>
            normalizeWebViewConfig os pc config = (w, Inr out))" by simp
next
  assume "normalizeWebViewConfig os pc config = (w, Inr out)"
  from normalizeWebViewConfig_customRect [OF this]
  show "customRect out = customRect config"
    and "normalizeWebViewConfig os pc (config\<lparr>customRect := Some rect\<rparr>) =
        (w, Inr (out\<lparr>customRect := Some rect\<rparr>))"
    by simp_all
qed

lemma sample_config:
  "configAt sample_store 1 =
     Some \<lparr>position = None,
           customRect = Some \<lparr>rect_x = - 5, rect_y = - 7, rect_width = 0, rect_height = - 1\<rparr>,
           cornerRadius = None, respectsSafeArea = None, allowsOrientationChanges = None,
           backgroundStyle = None\<rparr>"
  by (simp add: configAt_def lookup_def sample_store_def)

lemma sample_normalized:
  "normalizeWebViewConfig ''ios'' mock_processColor
     \<lparr>position = None,
      customRect = Some \<lparr>rect_x = - 5, rect_y = - 7, rect_width = 0, rect_height = - 1\<rparr>,
      cornerRadius = None, respectsSafeArea = None, allowsOrientationChanges = None,
      backgroundStyle = None\<rparr> =
   ([], Inr \<lparr>position = Some ''fullScreen'',
             customRect = Some \<lparr>rect_x = - 5, rect_y = - 7, rect_width = 0, rect_height = - 1\<rparr>,
             cornerRadius = Some 5, respectsSafeArea = Some True,
             allowsOrientationChanges = Some True,
             backgroundStyle =
               Some \<lparr>type = ''dimmed'', color = Some (ColorNumber 4278190080),
                     opacity = Some 0.5, blurEffectStyle = None\<rparr>\<rparr>)"
  by (simp add: normalizeWebViewConfig_def allowedPositions_def
      normalizeBackgroundStyle_unset mock_processColor_black)

lemma sample_run:
  "normalizeWebViewConfig_store ''ios'' mock_processColor sample_store 1 =
     Some ([],
           sample_store @
             [StyleObject \<lparr>type = ''dimmed'', color = Some (ColorNumber 4278190080),
                           opacity = Some 0.5, blurEffectStyle = None\<rparr>,
              ConfigObject
                \<lparr>position_of = Some ''fullScreen'', customRect_ref = Some 0,
                 cornerRadius_of = Some 5, respectsSafeArea_of = Some True,
                 allowsOrientationChanges_of = Some True, backgroundStyle_ref = Some 2\<rparr>],
           Inr 3)"
proof -
  have l: "lookup sample_store 1 =
     Some (ConfigObject
        \<lparr>position_of = None, customRect_ref = Some 0, cornerRadius_of = None,
         respectsSafeArea_of = None, allowsOrientationChanges_of = None,
         backgroundStyle_ref = None\<rparr>)"
    by (simp add: lookup_def sample_store_def)
  have n: "length sample_store = 2" by (simp add: sample_store_def)
  show ?thesis
    by (simp add: normalizeWebViewConfig_store_def l sample_config sample_normalized
        allocConfig_def n del: One_nat_def)
qed

text \<open>
  On the sample store, with a full-screen position: the run adds two objects behind the
  two old ones, the result holds the old reference to the rectangle, and the argument
  reads as before. On values, a rectangle of negative width passes through.
\<close>

theorem normalizeWebViewConfig_frame_witness:
  "normalizeWebViewConfig_store ''ios'' mock_processColor sample_store 1 =
     Some ([],
           sample_store @
             [StyleObject \<lparr>type = ''dimmed'', color = Some (ColorNumber 4278190080),
                           opacity = Some 0.5, blurEffectStyle = None\<rparr>,
              ConfigObject
                \<lparr>position_of = Some ''fullScreen'', customRect_ref = Some 0,
                 cornerRadius_of = Some 5, respectsSafeArea_of = Some True,
                 allowsOrientationChanges_of = Some True, backgroundStyle_ref = Some 2\<rparr>],
           Inr 3) \<and>
   configAt
     (sample_store @
        [StyleObject \<lparr>type = ''dimmed'', color = Some (ColorNumber 4278190080),
                      opacity = Some 0.5, blurEffectStyle = None\<rparr>,
         ConfigObject
           \<lparr>position_of = Some ''fullScreen'', customRect_ref = Some 0,
            cornerRadius_of = Some 5, respectsSafeArea_of = Some True,
            allowsOrientationChanges_of = Some True, backgroundStyle_ref = Some 2\<rparr>]) 1 =
     configAt sample_store 1 \<and>
   normalizeWebViewConfig ''ios'' mock_processColor
     \<lparr>position = None,
      customRect = Some \<lparr>rect_x = 1, rect_y = 2, rect_width = - 3, rect_height = 4\<rparr>,
      cornerRadius = None, respectsSafeArea = None, allowsOrientationChanges = None,
      backgroundStyle = None\<rparr> =
   ([], Inr \<lparr>position = Some ''fullScreen'',
             customRect = Some \<lparr>rect_x = 1, rect_y = 2, rect_width = - 3, rect_height = 4\<rparr>,
             cornerRadius = Some 5, respectsSafeArea = Some True,
             allowsOrientationChanges = Some True,
             backgroundStyle =
               Some \<lparr>type = ''dimmed'', color = Some (ColorNumber 4278190080),
                     opacity = Some 0.5, blurEffectStyle = None\<rparr>\<rparr>)"
  using normalizeWebViewConfig_frame
      [of "''ios''" mock_processColor sample_store 1 "[]"
          "sample_store @
             [StyleObject \<lparr>type = ''dimmed'', color = Some (ColorNumber 4278190080),
                           opacity = Some 0.5, blurEffectStyle = None\<rparr>,
              ConfigObject
                \<lparr>position_of = Some ''fullScreen'', customRect_ref = Some 0,
                 cornerRadius_of = Some 5, respectsSafeArea_of = Some True,
                 allowsOrientationChanges_of = Some True, backgroundStyle_ref = Some 2\<rparr>]"
          "Inr 3"
          "\<lparr>position = None,
            customRect = Some \<lparr>rect_x = - 5, rect_y = - 7, rect_width = 0, rect_height = - 1\<rparr>,
            cornerRadius = None, respectsSafeArea = None, allowsOrientationChanges = None,
            backgroundStyle = None\<rparr>"
          "\<lparr>position = Some ''fullScreen'',
             customRect = Some \<lparr>rect_x = - 5, rect_y = - 7, rect_width = 0, rect_height = - 1\<rparr>,
             cornerRadius = Some 5, respectsSafeArea = Some True,
             allowsOrientationChanges = Some True,
             backgroundStyle =
               Some \<lparr>type = ''dimmed'', color = Some (ColorNumber 4278190080),
                     opacity = Some 0.5, blurEffectStyle = None\<rparr>\<rparr>"
          "\<lparr>rect_x = 1, rect_y = 2, rect_width = - 3, rect_height = 4\<rparr>"]
    sample_run sample_normalized
  by simp

section \<open>setWebViewConfig and the errors of the normalizer\<close>

text \<open>When the background style throws, in terms of the input.\<close>

lemma normalizeBackgroundStyle_throws_iff:
  "(\<exists>e. snd (normalizeBackgroundStyle os pc bs) = Inl e) \<longleftrightarrow>
   (case bs of
      None \<Rightarrow> pc (ColorString ''black'') = None
    | Some b \<Rightarrow>
        (type b = ''dimmed'' \<and> pc (coalesce (color b) (ColorString ''black'')) = None) \<or>
        (type b = ''color'' \<and>
           (\<not> truthy_color (color b) \<or> (\<exists>v. color b = Some v \<and> pc v = None))) \<or>
        (type b = ''blur'' \<and>
           coalesce (blurEffectStyle b) ''dark'' \<notin> {''dark'', ''light'', ''extraLight''}) \<or>
        type b \<notin> {''dimmed'', ''color'', ''blur'', ''none''})"
proof (cases bs)
  case None
  then show ?thesis
    by (simp add: normalizeBackgroundStyle_unset split: option.splits)
next
  case (Some b)
  consider "type b = ''dimmed''" | "type b = ''color''" | "type b = ''blur''"
    | "type b = ''none''" | "type b \<notin> {''dimmed'', ''color'', ''blur'', ''none''}"
    by auto
  then show ?thesis
  proof cases
    case 1
    with Some show ?thesis
      by (simp add: normalizeBackgroundStyle_def normalizeColor_def split: option.splits)
  next
    case 2
    with Some show ?thesis
      by (cases "color b")
        (simp_all add: normalizeBackgroundStyle_def normalizeColor_def split: option.splits)
  next
    case 3
    with Some show ?thesis
      by (simp add: normalizeBackgroundStyle_def Let_def)
  next
    case 4
    with Some show ?thesis
      by (simp add: normalizeBackgroundStyle_def)
  next
    case 5
    with Some show ?thesis
      by (simp add: normalizeBackgroundStyle_def)
  qed
qed

text \<open>When the normalizer throws: a position check fails, or the background style throws.\<close>

lemma normalizeWebViewConfig_throws_iff:
  "(\<exists>e. snd (normalizeWebViewConfig os pc config) = Inl e) \<longleftrightarrow>
     coalesce (position config) ''fullScreen'' \<notin>
       {''fullScreen'', ''halfScreenTop'', ''halfScreenBottom'', ''custom''} \<or>
     (coalesce (position config) ''fullScreen'' = ''custom'' \<and> customRect config = None) \<or>
     (\<exists>e. snd (normalizeBackgroundStyle os pc (backgroundStyle config)) = Inl e)"
proof -
  obtain w2 r2 where bg: "normalizeBackgroundStyle os pc (backgroundStyle config) = (w2, r2)"
    by (cases "normalizeBackgroundStyle os pc (backgroundStyle config)")
  show ?thesis
    by (cases r2) (simp_all add: normalizeWebViewConfig_def allowedPositions_def Let_def bg)
qed

text \<open>
  An error of \<open>setWebViewConfig\<close> is the normalizer's, and then no call has crossed the
  bridge.
\<close>

lemma setWebViewConfig_throw_makes_no_call:
  "completion (setWebViewConfig os pc native config) = Inl e \<Longrightarrow>
   bridge (setWebViewConfig os pc native config) = [] \<and>
   snd (normalizeWebViewConfig os pc config) = Inl e"
  by (auto simp: setWebViewConfig_def split: prod.splits sum.splits)

lemma mock_processColor_zero: "mock_processColor (ColorNumber 0) = Some 0"
  by (simp add: mock_processColor_def)

text \<open>
  C2. The specification has a background style of type \<open>'color'\<close> throw when it has no
  colour or one that does not resolve, and in no other case. The code does otherwise at
  the colour 0, which is a colour and resolves (to 0): \<open>setWebViewConfig\<close> throws "color is
  required" and makes no call across the bridge, because the check is \<open>!color\<close>, which is
  true of 0. The same colour on a style of type \<open>'dimmed'\<close> is accepted and crosses the
  bridge. The two lemmas above give every case in which the normalizer throws.
\<close>

theorem setWebViewConfig_color_zero:
  "setWebViewConfig ''ios'' mock_processColor mock_native
     \<lparr>position = None, customRect = None, cornerRadius = None, respectsSafeArea = None,
      allowsOrientationChanges = None,
      backgroundStyle = Some (BackgroundStyle_color (Some (ColorNumber 0)))\<rparr> =
     \<lparr>console = [], bridge = [], completion = Inl ColorRequired\<rparr> \<and>
   mock_processColor (ColorNumber 0) = Some 0 \<and>
   setWebViewConfig ''ios'' mock_processColor mock_native
     \<lparr>position = None, customRect = None, cornerRadius = None, respectsSafeArea = None,
      allowsOrientationChanges = None,
      backgroundStyle = Some (BackgroundStyle_dimmed (Some (ColorNumber 0)) None)\<rparr> =
     \<lparr>console = [],
      bridge =
        [Native_setWebViewConfig
           \<lparr>position = Some ''fullScreen'', customRect = None, cornerRadius = Some 5,
            respectsSafeArea = Some True, allowsOrientationChanges = Some True,
            backgroundStyle =
              Some \<lparr>type = ''dimmed'', color = Some (ColorNumber 0), opacity = Some 0.5,
                    blurEffectStyle = None\<rparr>\<rparr>],
      completion = Inr JS_null\<rparr>"
  by (simp add: setWebViewConfig_def normalizeWebViewConfig_def allowedPositions_def
      normalizeBackgroundStyle_def BackgroundStyle_color_def BackgroundStyle_dimmed_def
      normalizeColor_def processedColor_def mock_processColor_zero mock_native_def)

section \<open>setATTStatus\<close>

text \<open>
  C4. The members of \<open>ATTStatus\<close> stand for 0, 1, 2 and 3. For a number outside these four,
  \<open>setATTStatus\<close> throws and makes no call across the bridge; for one of the four it makes
  the one call \<open>setATTStatus\<close> of the native module with that number and returns what the
  call returns.
\<close>

theorem setATTStatus_accepts_exactly_the_enum:
  "ATTStatus_value NotDetermined = 0 \<and> ATTStatus_value Restricted = 1 \<and>
   ATTStatus_value Denied = 2 \<and> ATTStatus_value Authorized = 3 \<and>
   (n \<notin> {0, 1, 2, 3} \<longrightarrow>
      setATTStatus native n =
        \<lparr>console = [], bridge = [], completion = Inl (InvalidATTStatus n)\<rparr>) \<and>
   (n \<in> {0, 1, 2, 3} \<longrightarrow>
      setATTStatus native n =
        \<lparr>console = [], bridge = [Native_setATTStatus n],
         completion = Inr (native (Native_setATTStatus n))\<rparr>)"
  by (auto simp: setATTStatus_def allowed_def)

text \<open>Against the mocked module: 4 and one half are refused, 3 is forwarded.\<close>

theorem setATTStatus_accepts_exactly_the_enum_witness:
  "setATTStatus mock_native 4 =
     \<lparr>console = [], bridge = [], completion = Inl (InvalidATTStatus 4)\<rparr> \<and>
   setATTStatus mock_native (1/2) =
     \<lparr>console = [], bridge = [], completion = Inl (InvalidATTStatus (1/2))\<rparr> \<and>
   setATTStatus mock_native 3 =
     \<lparr>console = [], bridge = [Native_setATTStatus 3], completion = Inr JS_null\<rparr>"
  using setATTStatus_accepts_exactly_the_enum [of 4 mock_native]
    setATTStatus_accepts_exactly_the_enum [of "1/2" mock_native]
    setATTStatus_accepts_exactly_the_enum [of 3 mock_native]
  by (simp add: mock_native_def)

section \<open>The delegate\<close>

lemma close_follows_show_append:
  "close_follows_show b (xs @ ys) =
     (close_follows_show b xs \<and> close_follows_show (shown_after b xs) ys)"
  by (induction b xs rule: close_follows_show.induct) simp_all

lemma shown_after_append: "shown_after b (xs @ ys) = shown_after (shown_after b xs) ys"
  by (induction b xs rule: shown_after.induct) simp_all

text \<open>
  One call keeps the emitted events in order, and keeps \<open>isConsentLayerShown\<close> equal to
  what the emitted events say.
\<close>

lemma deliver_order:
  assumes "close_follows_show False (emitted s)"
    and "shown_after False (emitted s) = isConsentLayerShown s"
  shows "close_follows_show False (emitted (deliver s c)) \<and>
         shown_after False (emitted (deliver s c)) = isConsentLayerShown (deliver s c)"
  using assms
  by (cases c) (auto simp: didReceiveConsent_def didShowConsentLayer_def didCloseConsentLayer_def
      didReceiveError_def didChangeATTStatus_def linkClickHandler_def sendEvent_def
      close_follows_show_append shown_after_append)

lemma run_snoc: "run s (calls @ [c]) = deliver (run s calls) c"
  by (simp add: run_def)

lemma run_order:
  "close_follows_show False (emitted (run Impl_init calls)) \<and>
   shown_after False (emitted (run Impl_init calls)) = isConsentLayerShown (run Impl_init calls)"
proof (induction calls rule: rev_induct)
  case Nil
  show ?case by (simp add: run_def Impl_init_def)
next
  case (snoc c calls)
  then show ?case unfolding run_snoc by (intro deliver_order) simp_all
qed

text \<open>
  C5. After any sequence of calls from the SDK on a new object, every layer-closed event
  among the emitted events has a layer-shown event before it and after the layer-closed
  event before it. A \<open>didCloseConsentLayer\<close> in a state not marked shown changes nothing,
  so it emits nothing; \<open>didShowConsentLayer\<close> followed by \<open>didCloseConsentLayer\<close> emits both
  events, in any state; and the scenario (a close, then a show and a close) emits the
  show and one close.
\<close>

theorem layer_closed_only_after_layer_shown:
  "close_follows_show False (emitted (run Impl_init calls)) \<and>
   (\<not> isConsentLayerShown s \<longrightarrow> didCloseConsentLayer s = s) \<and>
   emitted (run s [DidShowConsentLayer, DidCloseConsentLayer]) =
     emitted s @ [Event_didShowConsentLayer, Event_didCloseConsentLayer] \<and>
   emitted (run Impl_init [DidCloseConsentLayer, DidShowConsentLayer, DidCloseConsentLayer]) =
     [Event_didShowConsentLayer, Event_didCloseConsentLayer]"
  using run_order [of calls]
  by (simp add: run_def didCloseConsentLayer_def didShowConsentLayer_def sendEvent_def
      Impl_init_def)

text \<open>A run with two closes that are not forwarded and link clicks on both sides of the gate.\<close>

theorem layer_closed_only_after_layer_shown_witness:
  "close_follows_show False
     (emitted (run Impl_init
        [DidCloseConsentLayer, LinkClick ''https://example.com/privacy'',
         DidShowConsentLayer, LinkClick ''https://example.com/privacy'',
         DidCloseConsentLayer, DidCloseConsentLayer])) \<and>
   emitted (run Impl_init
        [DidCloseConsentLayer, LinkClick ''https://example.com/privacy'',
         DidShowConsentLayer, LinkClick ''https://example.com/privacy'',
         DidCloseConsentLayer, DidCloseConsentLayer]) =
     [Event_didShowConsentLayer, Event_onClickLink ''https://example.com/privacy'',
      Event_didCloseConsentLayer] \<and>
   didCloseConsentLayer Impl_init = Impl_init"
proof -
  have "\<not> isConsentLayerShown Impl_init" by (simp add: Impl_init_def)
  with layer_closed_only_after_layer_shown
    [of "[DidCloseConsentLayer, LinkClick ''https://example.com/privacy'',
         DidShowConsentLayer, LinkClick ''https://example.com/privacy'',
         DidCloseConsentLayer, DidCloseConsentLayer]" Impl_init]
  show ?thesis
    by (simp add: run_def didCloseConsentLayer_def didShowConsentLayer_def sendEvent_def
      Impl_init_def linkClickHandler_def)
qed

text \<open>
  C6. \<open>shouldHandleLinkClicks\<close> is false on a new object and true after
  \<open>didShowConsentLayer\<close>; a \<open>didCloseConsentLayer\<close> that emits its event leaves it false.
  With the flag false the link-click handler returns false and leaves the state, and so
  the emitted events, as they were; with the flag true it emits \<open>onClickLink\<close> with the
  URL; so a handler call that emits anything was made with the flag true.
\<close>

theorem link_click_gate:
  "\<not> shouldHandleLinkClicks Impl_init \<and>
   shouldHandleLinkClicks (didShowConsentLayer s) \<and>
   (emitted (didCloseConsentLayer s) = emitted s @ [Event_didCloseConsentLayer] \<longrightarrow>
      \<not> shouldHandleLinkClicks (didCloseConsentLayer s)) \<and>
   (\<not> shouldHandleLinkClicks s \<longrightarrow> linkClickHandler s url = (False, s)) \<and>
   (shouldHandleLinkClicks s \<longrightarrow>
      emitted (snd (linkClickHandler s url)) = emitted s @ [Event_onClickLink url]) \<and>
   (emitted (snd (linkClickHandler s url)) \<noteq> emitted s \<longrightarrow> shouldHandleLinkClicks s)"
  by (auto simp: Impl_init_def didShowConsentLayer_def didCloseConsentLayer_def sendEvent_def
      linkClickHandler_def)

text \<open>A link click before the layer is shown, one while it is shown, and the close.\<close>

theorem link_click_gate_witness:
  "linkClickHandler Impl_init ''https://www.google.com/maps'' = (False, Impl_init) \<and>
   emitted (snd (linkClickHandler (didShowConsentLayer Impl_init)
                   ''https://www.google.com/maps'')) =
     [Event_didShowConsentLayer, Event_onClickLink ''https://www.google.com/maps''] \<and>
   \<not> shouldHandleLinkClicks (didCloseConsentLayer (didShowConsentLayer Impl_init))"
proof -
  have a: "\<not> shouldHandleLinkClicks Impl_init" by (simp add: Impl_init_def)
  have b: "shouldHandleLinkClicks (didShowConsentLayer Impl_init)"
    by (simp add: didShowConsentLayer_def sendEvent_def)
  have c: "emitted (didCloseConsentLayer (didShowConsentLayer Impl_init)) =
      emitted (didShowConsentLayer Impl_init) @ [Event_didCloseConsentLayer]"
    by (simp add: didShowConsentLayer_def didCloseConsentLayer_def sendEvent_def)
  have d: "emitted (didShowConsentLayer Impl_init) = [Event_didShowConsentLayer]"
    by (simp add: didShowConsentLayer_def sendEvent_def Impl_init_def)
  from link_click_gate [of Impl_init "''https://www.google.com/maps''"]
    link_click_gate [of "didShowConsentLayer Impl_init" "''https://www.google.com/maps''"]
    a b c d
  show ?thesis by simp
qed

lemma deliver_flags:
  "isConsentLayerShown s = shouldHandleLinkClicks s \<Longrightarrow>
   isConsentLayerShown (deliver s c) = shouldHandleLinkClicks (deliver s c)"
  by (cases c) (auto simp: didReceiveConsent_def didShowConsentLayer_def didCloseConsentLayer_def
      didReceiveError_def didChangeATTStatus_def linkClickHandler_def sendEvent_def)

lemma run_flags:
  "isConsentLayerShown (run Impl_init calls) = shouldHandleLinkClicks (run Impl_init calls)"
proof (induction calls rule: rev_induct)
  case Nil
  show ?case by (simp add: run_def Impl_init_def)
next
  case (snoc c calls)
  then show ?case unfolding run_snoc by (rule deliver_flags)
qed

text \<open>
  C9. After any sequence of calls from the SDK on a new object the two flags are equal.
  Both are false on a new object; \<open>didShowConsentLayer\<close> makes both true;
  \<open>didCloseConsentLayer\<close> makes both false or leaves both; the other delegate methods and
  the link-click handler leave both. (The bridge methods are functions of their
  arguments and the SDK: they neither read nor write the object's state.)
\<close>

theorem delegate_flags_agree:
  "isConsentLayerShown (run Impl_init calls) = shouldHandleLinkClicks (run Impl_init calls) \<and>
   flags Impl_init = (False, False) \<and>
   flags (didShowConsentLayer s) = (True, True) \<and>
   (flags (didCloseConsentLayer s) = (False, False) \<or>
    flags (didCloseConsentLayer s) = flags s) \<and>
   flags (didReceiveConsent s consent js) = flags s \<and>
   flags (didReceiveError s err) = flags s \<and>
   flags (didChangeATTStatus s oldStatus newStatus lastUpdated) = flags s \<and>
   flags (snd (linkClickHandler s url)) = flags s"
  using run_flags [of calls]
  by (simp add: flags_def Impl_init_def didShowConsentLayer_def didCloseConsentLayer_def
      didReceiveConsent_def didReceiveError_def didChangeATTStatus_def linkClickHandler_def
      sendEvent_def)

text \<open>The flags after two short runs.\<close>

theorem delegate_flags_agree_witness:
  "flags (run Impl_init
            [DidCloseConsentLayer, DidShowConsentLayer, LinkClick ''https://a.b/terms'']) =
     (True, True) \<and>
   flags (run Impl_init
            [DidShowConsentLayer, DidReceiveError ''x'', DidCloseConsentLayer]) =
     (False, False)"
  using delegate_flags_agree
      [of "[DidCloseConsentLayer, DidShowConsentLayer, LinkClick ''https://a.b/terms'']"
          Impl_init]
    delegate_flags_agree
      [of "[DidShowConsentLayer, DidReceiveError ''x'', DidCloseConsentLayer]" Impl_init]
  by (simp add: run_def flags_def Impl_init_def didShowConsentLayer_def
      didCloseConsentLayer_def didReceiveConsent_def didReceiveError_def
      didChangeATTStatus_def linkClickHandler_def sendEvent_def)

section \<open>Geometry\<close>

text \<open>
  C7 puts the origin of \<open>halfScreenTop\<close> at the top inset in every case. That does not
  hold: with \<open>respectsSafeArea\<close> false the half-screen rectangle starts at 0. On the
  device with a top inset of 47, \<open>halfScreenTop\<close> without safe area is the rectangle at
  y = 0 of height 844 / 2, which is not the rectangle at y = 47.
\<close>

theorem mapPosition_halfScreenTop_origin_counterexample:
  "mapPosition notch_env
     \<lparr>cfg_position = Some ''halfScreenTop'', cfg_customRect = None, cfg_cornerRadius = Some 5,
      cfg_respectsSafeArea = Some False, cfg_allowsOrientationChanges = Some True,
      cfg_backgroundStyle = None\<rparr> False =
   Position_custom \<lparr>cg_x = 0, cg_y = 0, cg_width = 390, cg_height = 422\<rparr> \<and>
   inset_top (currentSafeAreaInsets notch_env) = 47 \<and>
   mapPosition notch_env
     \<lparr>cfg_position = Some ''halfScreenTop'', cfg_customRect = None, cfg_cornerRadius = Some 5,
      cfg_respectsSafeArea = Some False, cfg_allowsOrientationChanges = Some True,
      cfg_backgroundStyle = None\<rparr> False \<noteq>
   Position_custom
     \<lparr>cg_x = 0, cg_y = inset_top (currentSafeAreaInsets notch_env), cg_width = 390,
      cg_height = 422\<rparr>"
  by (simp add: mapPosition_def notch_env_def currentSafeAreaInsets_def Let_def)

text \<open>
  C7, amended. A half-screen position gives a rectangle of the screen's width whose height
  is half the usable height (the screen height, less the top and bottom insets when
  \<open>respectsSafeArea\<close> is true); \<open>halfScreenTop\<close> starts at the top inset when
  \<open>respectsSafeArea\<close> is true and at 0 otherwise, \<open>halfScreenBottom\<close> half the usable
  height below that. Position \<open>'custom'\<close> with a rectangle whose four numbers are present
  (as they are in every dictionary the module hands over for a configuration with a
  rectangle) gives that rectangle, moved and shrunk by the insets on each edge when
  \<open>respectsSafeArea\<close> is true and unchanged otherwise. Any position other than these three,
  or none, gives \<open>fullScreen\<close>.
\<close>

theorem mapPosition_geometry:
  "(cfg_position config = Some ''halfScreenTop'' \<longrightarrow>
      mapPosition env config rsa =
        Position_custom
          \<lparr>cg_x = 0,
           cg_y = (if rsa then inset_top (currentSafeAreaInsets env) else 0),
           cg_width = cg_width (screenBounds env),
           cg_height = usableHeight env rsa / 2\<rparr>) \<and>
   (cfg_position config = Some ''halfScreenBottom'' \<longrightarrow>
      mapPosition env config rsa =
        Position_custom
          \<lparr>cg_x = 0,
           cg_y = (if rsa then inset_top (currentSafeAreaInsets env) else 0) +
                  usableHeight env rsa / 2,
           cg_width = cg_width (screenBounds env),
           cg_height = usableHeight env rsa / 2\<rparr>) \<and>
   (cfg_position config = Some ''custom'' \<and> cfg_customRect config = Some dict \<and>
    dict_x dict = Some x \<and> dict_y dict = Some y \<and>
    dict_width dict = Some width \<and> dict_height dict = Some height \<longrightarrow>
      mapPosition env config rsa =
        Position_custom
          (if rsa then
             \<lparr>cg_x = x + inset_left (currentSafeAreaInsets env),
              cg_y = y + inset_top (currentSafeAreaInsets env),
              cg_width = width -
                (inset_left (currentSafeAreaInsets env) +
                 inset_right (currentSafeAreaInsets env)),
              cg_height = height -
                (inset_top (currentSafeAreaInsets env) +
                 inset_bottom (currentSafeAreaInsets env))\<rparr>
           else \<lparr>cg_x = x, cg_y = y, cg_width = width, cg_height = height\<rparr>)) \<and>
   (position c = Some ''custom'' \<and> customRect c = Some rect \<longrightarrow>
      mapPosition env (configDict c) rsa =
        Position_custom
          (if rsa then
             \<lparr>cg_x = rect_x rect + inset_left (currentSafeAreaInsets env),
              cg_y = rect_y rect + inset_top (currentSafeAreaInsets env),
              cg_width = rect_width rect -
                (inset_left (currentSafeAreaInsets env) +
                 inset_right (currentSafeAreaInsets env)),
              cg_height = rect_height rect -
                (inset_top (currentSafeAreaInsets env) +
                 inset_bottom (currentSafeAreaInsets env))\<rparr>
           else
             \<lparr>cg_x = rect_x rect, cg_y = rect_y rect, cg_width = rect_width rect,
              cg_height = rect_height rect\<rparr>)) \<and>
   (cfg_position config \<noteq> Some ''halfScreenTop'' \<and>
    cfg_position config \<noteq> Some ''halfScreenBottom'' \<and>
    cfg_position config \<noteq> Some ''custom'' \<longrightarrow>
      mapPosition env config rsa = Position_fullScreen)"
  by (auto simp: mapPosition_def usableHeight_def Let_def configDict_def rectFromDictionary_def
      UIEdgeInsets_zero_def split: option.splits)

text \<open>
  On the device with the notch, with safe area: the two halves, a custom rectangle handed
  over by the module, and full screen.
\<close>

theorem mapPosition_geometry_witness:
  "mapPosition notch_env
     \<lparr>cfg_position = Some ''halfScreenTop'', cfg_customRect = None, cfg_cornerRadius = None,
      cfg_respectsSafeArea = None, cfg_allowsOrientationChanges = None,
      cfg_backgroundStyle = None\<rparr> True =
     Position_custom \<lparr>cg_x = 0, cg_y = 47, cg_width = 390, cg_height = 763 / 2\<rparr> \<and>
   mapPosition notch_env
     \<lparr>cfg_position = Some ''halfScreenBottom'', cfg_customRect = None, cfg_cornerRadius = None,
      cfg_respectsSafeArea = None, cfg_allowsOrientationChanges = None,
      cfg_backgroundStyle = None\<rparr> True =
     Position_custom \<lparr>cg_x = 0, cg_y = 47 + 763 / 2, cg_width = 390, cg_height = 763 / 2\<rparr> \<and>
   mapPosition notch_env
     (configDict
        \<lparr>position = Some ''custom'',
         customRect = Some \<lparr>rect_x = 10, rect_y = 20, rect_width = 300, rect_height = 400\<rparr>,
         cornerRadius = Some 5, respectsSafeArea = Some True,
         allowsOrientationChanges = Some True, backgroundStyle = None\<rparr>) True =
     Position_custom \<lparr>cg_x = 10, cg_y = 67, cg_width = 300, cg_height = 319\<rparr> \<and>
   mapPosition notch_env
     \<lparr>cfg_position = Some ''fullScreen'', cfg_customRect = None, cfg_cornerRadius = None,
      cfg_respectsSafeArea = None, cfg_allowsOrientationChanges = None,
      cfg_backgroundStyle = None\<rparr> True = Position_fullScreen"
proof -
  let ?top = "\<lparr>cfg_position = Some ''halfScreenTop'', cfg_customRect = None,
      cfg_cornerRadius = None, cfg_respectsSafeArea = None,
      cfg_allowsOrientationChanges = None, cfg_backgroundStyle = None\<rparr>"
  let ?bottom = "\<lparr>cfg_position = Some ''halfScreenBottom'', cfg_customRect = None,
      cfg_cornerRadius = None, cfg_respectsSafeArea = None,
      cfg_allowsOrientationChanges = None, cfg_backgroundStyle = None\<rparr>"
  let ?full = "\<lparr>cfg_position = Some ''fullScreen'', cfg_customRect = None,
      cfg_cornerRadius = None, cfg_respectsSafeArea = None,
      cfg_allowsOrientationChanges = None, cfg_backgroundStyle = None\<rparr>"
  let ?rect = "\<lparr>rect_x = 10, rect_y = 20, rect_width = 300, rect_height = 400\<rparr>"
  let ?c = "\<lparr>position = Some ''custom'', customRect = Some ?rect,
         cornerRadius = Some 5, respectsSafeArea = Some True,
         allowsOrientationChanges = Some True, backgroundStyle = None\<rparr>"
  let ?dict = "\<lparr>dict_x = Some 10, dict_y = Some 20, dict_width = Some 300,
         dict_height = Some 400\<rparr>"
  have insets: "currentSafeAreaInsets notch_env =
      \<lparr>inset_top = 47, inset_left = 0, inset_bottom = 34, inset_right = 0\<rparr>"
    by (simp add: currentSafeAreaInsets_def notch_env_def)
  have bounds:
    "screenBounds notch_env = \<lparr>cg_x = 0, cg_y = 0, cg_width = 390, cg_height = 844\<rparr>"
    by (simp add: notch_env_def)
  have usable: "usableHeight notch_env True = 763"
    by (simp add: usableHeight_def insets bounds)
  from mapPosition_geometry [of ?top notch_env True ?dict 10 20 300 400 ?c ?rect]
    mapPosition_geometry [of ?bottom notch_env True ?dict 10 20 300 400 ?c ?rect]
    mapPosition_geometry [of ?full notch_env True ?dict 10 20 300 400 ?c ?rect]
    mapPosition_geometry [of "configDict ?c" notch_env True ?dict 10 20 300 400 ?c ?rect]
  show ?thesis by (simp add: insets bounds usable configDict_def)
qed

section \<open>Export and import of the CMP string\<close>

text \<open>
  What the bridge does with the string, for any SDK: \<open>exportCMPInfo\<close> returns the promise
  of the native call, which on iOS resolves with the string the SDK returned;
  \<open>importCMPInfo\<close> makes the one native call with the caller's string, which on iOS calls
  the SDK with that string and resolves with true when the completion reports no error,
  and is rejected with the SDK's message otherwise.
\<close>

lemma cmp_info_bridge:
  "completion (exportCMPInfo native) = Inr (native Native_exportCMPInfo) \<and>
   iosTurboModule env sdk Native_exportCMPInfo =
     ([CMP_exportCMPInfo], Resolve (JS_string (cmp_exportCMPInfo sdk))) \<and>
   bridge (importCMPInfo native cmpString) = [Native_importCMPInfo cmpString] \<and>
   completion (importCMPInfo native cmpString) =
     Inr (native (Native_importCMPInfo cmpString)) \<and>
   iosTurboModule env sdk (Native_importCMPInfo cmpString) =
     ([CMP_importCMPInfo cmpString],
      (case cmp_importCMPInfo sdk cmpString of
         None \<Rightarrow> Resolve (JS_bool True)
       | Some d \<Rightarrow> Reject ''ERROR'' (''Failed to import CMP info: '' @ d))) \<and>
   exportThenImport env sdk =
     Some \<lparr>console = [], bridge = [Native_importCMPInfo (cmp_exportCMPInfo sdk)],
           completion =
             Inr ([CMP_importCMPInfo (cmp_exportCMPInfo sdk)],
                  (case cmp_importCMPInfo sdk (cmp_exportCMPInfo sdk) of
                     None \<Rightarrow> Resolve (JS_bool True)
                   | Some d \<Rightarrow> Reject ''ERROR'' (''Failed to import CMP info: '' @ d)))\<rparr>"
  by (simp add: exportThenImport_def exportCMPInfo_def importCMPInfo_def iosTurboModule_def
      impl_exportCMPInfo_def impl_importCMPInfo_def split: option.splits)

text \<open>
  C8. With an SDK that imports its own export, whatever string that is, \<open>exportCMPInfo\<close>
  followed by \<open>importCMPInfo\<close> of the returned value resolves, with true, and the string
  handed to the SDK's import is the string its export returned. The bridge passes the
  string through unchanged in both directions, for every SDK and every string:
  \<open>exportCMPInfo\<close> returns the promise of the native call, which resolves with exactly the
  string the SDK produced, and \<open>importCMPInfo\<close> makes one native call with exactly the
  caller's string, which calls the SDK's import with exactly that string.
\<close>

theorem exportThenImport_resolves:
  "(imports_own_export sdk \<longrightarrow>
      exportThenImport env sdk =
        Some \<lparr>console = [], bridge = [Native_importCMPInfo (cmp_exportCMPInfo sdk)],
              completion =
                Inr ([CMP_importCMPInfo (cmp_exportCMPInfo sdk)], Resolve (JS_bool True))\<rparr>) \<and>
   completion (exportCMPInfo native) = Inr (native Native_exportCMPInfo) \<and>
   iosTurboModule env sdk Native_exportCMPInfo =
     ([CMP_exportCMPInfo], Resolve (JS_string (cmp_exportCMPInfo sdk))) \<and>
   bridge (importCMPInfo native cmpString) = [Native_importCMPInfo cmpString] \<and>
   completion (importCMPInfo native cmpString) =
     Inr (native (Native_importCMPInfo cmpString)) \<and>
   fst (iosTurboModule env sdk (Native_importCMPInfo cmpString)) =
     [CMP_importCMPInfo cmpString]"
  using cmp_info_bridge [of native env sdk cmpString]
  by (simp add: imports_own_export_def)

text \<open>With an SDK that imports its own export and nothing else.\<close>

theorem exportThenImport_resolves_witness:
  "imports_own_export strict_sdk \<and>
   exportThenImport notch_env strict_sdk =
     Some \<lparr>console = [], bridge = [Native_importCMPInfo ''exported-cmp-string''],
           completion =
             Inr ([CMP_importCMPInfo ''exported-cmp-string''], Resolve (JS_bool True))\<rparr> \<and>
   fst (iosTurboModule notch_env strict_sdk (Native_importCMPInfo ''tampered'')) =
     [CMP_importCMPInfo ''tampered'']"
proof -
  have own: "imports_own_export strict_sdk"
    by (simp add: imports_own_export_def strict_sdk_def)
  from exportThenImport_resolves
      [of strict_sdk notch_env "iosTurboModule notch_env strict_sdk" "''tampered''"] own
  show ?thesis by (simp add: strict_sdk_def)
qed

end
